theory Spec2Isabelle
  imports Main "HOL-Library.Sublist"
begin

section \<open>Python values, faults and output streams\<close>

text \<open>
  The values that cross the interfaces of the two components: what \<open>json.loads\<close>
  returns, what a tool receives and returns, what \<open>execute\<close> is handed as code, and
  what the kernel namespace binds. \<open>PObj\<close> is an opaque object (a function, a module,
  the kernel handle), named by a string.
\<close>

datatype pyval =
    PNone
  | PBool bool
  | PInt int
  | PStr string
  | PList "pyval list"
  | PDict "(string \<times> pyval) list"
  | PObj string

text \<open>
  A raised exception: the names of its class and of all its base classes (its method
  resolution order), and \<open>str(e)\<close>. \<open>except C\<close> catches it when \<open>C\<close> is among
  the classes.
\<close>

datatype fault = Fault (classes: "string list") (detail: string)

definition isinstance :: "fault \<Rightarrow> string \<Rightarrow> bool" where
  "isinstance e c = (c \<in> set (classes e))"

definition SyntaxError :: "string \<Rightarrow> fault" where
  "SyntaxError d = Fault [''SyntaxError'', ''Exception'', ''BaseException''] d"

definition TimeoutError :: "string \<Rightarrow> fault" where
  "TimeoutError d = Fault [''TimeoutError'', ''OSError'', ''Exception'', ''BaseException''] d"

definition TypeError :: "string \<Rightarrow> fault" where
  "TypeError d = Fault [''TypeError'', ''Exception'', ''BaseException''] d"

definition NameError :: "string \<Rightarrow> fault" where
  "NameError d = Fault [''NameError'', ''Exception'', ''BaseException''] d"

definition ZeroDivisionError :: "string \<Rightarrow> fault" where
  "ZeroDivisionError d =
     Fault [''ZeroDivisionError'', ''ArithmeticError'', ''Exception'', ''BaseException''] d"

definition ValueError :: "string \<Rightarrow> fault" where
  "ValueError d = Fault [''ValueError'', ''Exception'', ''BaseException''] d"

definition OverflowError :: "string \<Rightarrow> fault" where
  "OverflowError d =
     Fault [''OverflowError'', ''ArithmeticError'', ''Exception'', ''BaseException''] d"

definition KeyboardInterrupt :: "string \<Rightarrow> fault" where
  "KeyboardInterrupt d = Fault [''KeyboardInterrupt'', ''BaseException''] d"

text \<open>\<open>str(n)\<close> for a Python integer: decimal digits, with a sign when negative.\<close>

fun digits :: "nat \<Rightarrow> string" where
  "digits n =
     (if n < 10 then [''0123456789'' ! n]
      else digits (n div 10) @ [''0123456789'' ! (n mod 10)])"

declare digits.simps [simp del]

definition str_int :: "int \<Rightarrow> string" where
  "str_int i = (if i < 0 then CHR ''-'' # digits (nat (- i)) else digits (nat i))"

text \<open>
  What \<open>sys.stdout\<close> can be bound to: the stream of the process, the \<open>StringIO\<close>
  buffer that \<open>execute\<close> creates for one call, or any other stream object that code
  may install.
\<close>

datatype stream = ProcessStdout | StringIO | OtherStream string

record world =
  sys_stdout :: stream

section \<open>The interpreter behind the kernel\<close>

text \<open>
  The kernel hands code to Python's own \<open>ast.parse\<close> and \<open>exec\<close>. Both are
  parameters of the model. \<open>exec(code, namespace)\<close> runs in an execution unit that the
  caller observes once: after the time it waits for the unit (\<open>Some t\<close>), or when the unit
  ends if the caller runs it itself (\<open>None\<close>). The observation gives the text written to
  the capture buffer so far, whether code has closed that buffer, the bindings of the
  namespace so far, the binding of \<open>sys.stdout\<close> (code may rebind it), and whether the
  unit has returned, has raised, or is still running. \<open>TIMEOUT_MAX\<close> is
  \<open>threading.TIMEOUT_MAX\<close>, the longest time the platform lets a caller wait for a
  thread.
\<close>

datatype status = Finished | Faulted fault | Running

type_synonym namespace = "string \<rightharpoonup> pyval"

record snapshot =
  emitted :: string
  buffer_closed :: bool
  bindings :: namespace
  stdout_binding :: stream
  status :: status

record interp =
  TIMEOUT_MAX :: int
  ast_parse :: "string \<Rightarrow> fault option"
  py_exec :: "string \<Rightarrow> namespace \<Rightarrow> stream \<Rightarrow> int option \<Rightarrow> snapshot"

section \<open>PersistentKernel\<close>

record kernel =
  k_namespace :: namespace
  k_imports :: string
  k_timeout :: int
  k_background_threads :: "string list"

record exec_result =
  r_success :: bool
  r_output :: string
  r_error :: "string option"

text \<open>
  \<open>_safe_exec\<close>: the syntax check, whose \<open>SyntaxError\<close> is raised again with the
  prefix \<open>Invalid Python syntax:\<close> (any other exception of \<open>ast.parse\<close> goes through
  unchanged), then \<open>exec\<close> on the kernel's namespace.
\<close>

definition safe_exec :: "interp \<Rightarrow> string \<Rightarrow> namespace \<Rightarrow> stream \<Rightarrow> int option \<Rightarrow> snapshot" where
  "safe_exec I code ns out horizon =
     (case ast_parse I code of
        Some e \<Rightarrow>
          \<lparr>emitted = [], buffer_closed = False, bindings = ns, stdout_binding = out,
           status = Faulted (if isinstance e ''SyntaxError''
                             then SyntaxError (''Invalid Python syntax: '' @ detail e)
                             else e)\<rparr>
      | None \<Rightarrow> py_exec I code ns out horizon)"

text \<open>
  \<open>__init__\<close>: \<open>namespace or {}\<close>, then the imports, run by the caller itself when the
  string is not empty. The status says whether the constructor returned, raised, or never
  returns.
\<close>

definition init :: "interp \<Rightarrow> namespace option \<Rightarrow> string \<Rightarrow> int \<Rightarrow> world \<Rightarrow> status \<times> kernel \<times> world" where
  "init I ns imports t w =
     (let k = \<lparr>k_namespace = (case ns of None \<Rightarrow> Map.empty | Some m \<Rightarrow> m),
               k_imports = imports, k_timeout = t, k_background_threads = []\<rparr>
      in if imports \<noteq> []
         then (let s = safe_exec I imports (k_namespace k) (sys_stdout w) None
               in (status s, k\<lparr>k_namespace := bindings s\<rparr>, w\<lparr>sys_stdout := stdout_binding s\<rparr>))
         else (Finished, k, w))"

text \<open>\<open>reset\<close>: \<open>namespace.clear()\<close>, then the imports again when there are any.\<close>

definition reset :: "interp \<Rightarrow> kernel \<times> world \<Rightarrow> status \<times> kernel \<times> world" where
  "reset I kw =
     (let k = fst kw; w = snd kw;
          k1 = k\<lparr>k_namespace := Map.empty\<rparr>
      in if k_imports k \<noteq> []
         then (let s = safe_exec I (k_imports k) (k_namespace k1) (sys_stdout w) None
               in (status s, k1\<lparr>k_namespace := bindings s\<rparr>, w\<lparr>sys_stdout := stdout_binding s\<rparr>))
         else (Finished, k1, w))"

text \<open>
  \<open>execute_background\<close>: \<open>run_code\<close> is started in a daemon thread, the caller sleeps
  two seconds, drops from \<open>background_threads\<close> the threads that are no longer alive
  (\<open>alive\<close> says which of the older ones still are) and returns a fixed dictionary.
  \<open>run_code\<close> catches every \<open>Exception\<close> of \<open>_safe_exec\<close> and prints it.
\<close>

definition execute_background ::
  "interp \<Rightarrow> (string \<Rightarrow> bool) \<Rightarrow> string \<Rightarrow> kernel \<times> world \<Rightarrow> exec_result \<times> kernel \<times> world" where
  "execute_background I alive code kw =
     (let k = fst kw; w = snd kw;
          s = safe_exec I code (k_namespace k) (sys_stdout w) (Some 2);
          threads = filter alive (k_background_threads k) @ (if status s = Running then [code] else [])
      in (\<lparr>r_success = True, r_output = ''Code started in background thread'', r_error = None\<rparr>,
          k\<lparr>k_namespace := bindings s, k_background_threads := threads\<rparr>,
          w\<lparr>sys_stdout := stdout_binding s\<rparr>))"

text \<open>
  \<open>captured_output.getvalue()\<close>: the text of the buffer, or a \<open>ValueError\<close> once the
  buffer has been closed.
\<close>

definition getvalue :: "snapshot \<Rightarrow> fault + string" where
  "getvalue s =
     (if buffer_closed s then Inl (ValueError ''I/O operation on closed file'')
      else Inr (emitted s))"

text \<open>
  How long the caller has waited when \<open>join(timeout=self.timeout)\<close> is over: the
  timeout, or no time at all when the timeout is above \<open>TIMEOUT_MAX\<close>, since \<open>join\<close>
  then raises \<open>OverflowError\<close> at once. (A negative timeout waits no time either; the
  interpreter is given the timeout as it is.)
\<close>

definition join_wait :: "interp \<Rightarrow> kernel \<Rightarrow> int" where
  "join_wait I k = (if TIMEOUT_MAX I < k_timeout k then 0 else k_timeout k)"

text \<open>
  The \<open>try\<close> block of \<open>execute\<close>, for a string: \<open>_safe_exec\<close> is the target of a new
  thread, which the caller joins for at most \<open>timeout\<close> seconds. An exception raised by
  the target ends the thread and stays in it: \<open>join\<close> returns normally for a thread
  that has ended, however it ended, and \<open>is_alive()\<close> is then false. A thread that is
  still running makes the caller raise \<open>TimeoutError\<close>; otherwise the buffer is read.
\<close>

definition execute_try :: "interp \<Rightarrow> kernel \<Rightarrow> snapshot \<Rightarrow> fault + exec_result" where
  "execute_try I k s =
     (if TIMEOUT_MAX I < k_timeout k
      then Inl (OverflowError ''timeout value is too large'')
      else if status s = Running
      then Inl (TimeoutError (''Execution timed out after '' @ str_int (k_timeout k) @ '' seconds''))
      else (case getvalue s of
              Inl e \<Rightarrow> Inl e
            | Inr buf \<Rightarrow> Inr \<lparr>r_success = True, r_output = buf, r_error = None\<rparr>))"

text \<open>
  \<open>execute\<close>: the type check, the redirection of \<open>sys.stdout\<close> to a fresh buffer, the
  \<open>try\<close> block, the handler for \<open>Exception\<close>, which reads the buffer again, and the
  \<open>finally\<close> clause that binds \<open>sys.stdout\<close> to what it was. The left result is an
  exception that leaves \<open>execute\<close>.
\<close>

definition execute :: "interp \<Rightarrow> pyval \<Rightarrow> kernel \<times> world \<Rightarrow> (fault + exec_result) \<times> kernel \<times> world" where
  "execute I code kw =
     (let k = fst kw; w = snd kw in
      case code of
        PStr src \<Rightarrow>
          (let old_stdout = sys_stdout w;
               w1 = w\<lparr>sys_stdout := StringIO\<rparr>;
               s = safe_exec I src (k_namespace k) (sys_stdout w1) (Some (join_wait I k));
               w2 = w1\<lparr>sys_stdout := stdout_binding s\<rparr>;
               r = (case execute_try I k s of
                      Inr res \<Rightarrow> Inr res
                    | Inl e \<Rightarrow>
                        if isinstance e ''Exception''
                        then (case getvalue s of
                                Inl e' \<Rightarrow> Inl e'
                              | Inr buf \<Rightarrow>
                                  Inr \<lparr>r_success = False, r_output = buf,
                                       r_error = Some (detail e)\<rparr>)
                        else Inl e)
           in (r, k\<lparr>k_namespace := bindings s\<rparr>, w2\<lparr>sys_stdout := old_stdout\<rparr>))
      | _ \<Rightarrow> (Inr \<lparr>r_success = False, r_output = [], r_error = Some ''Code must be a string''\<rparr>, k, w))"

text \<open>
  The programs of the kernel's usage scenarios, with what Python does on each: an
  assignment, a print of a variable, a division by zero after a print, a loop that never
  ends, alone, after a print and after closing \<open>sys.stdout\<close>, and a text that does not
  parse. Every \<open>exec\<close> binds \<open>__builtins__\<close> in the namespace it is given.
\<close>

definition scenario_exec :: "string \<Rightarrow> namespace \<Rightarrow> stream \<Rightarrow> int option \<Rightarrow> snapshot" where
  "scenario_exec code ns out horizon =
     (let ns1 = ns(''__builtins__'' \<mapsto> PObj ''builtins'') in
      if code = ''x = 2'' then
        \<lparr>emitted = [], buffer_closed = False, bindings = ns1(''x'' \<mapsto> PInt 2),
         stdout_binding = out, status = Finished\<rparr>
      else if code = ''print(x)'' then
        (case ns1 ''x'' of
           Some (PInt i) \<Rightarrow>
             \<lparr>emitted = str_int i @ [CHR 0x0A], buffer_closed = False, bindings = ns1,
              stdout_binding = out, status = Finished\<rparr>
         | _ \<Rightarrow>
             \<lparr>emitted = [], buffer_closed = False, bindings = ns1, stdout_binding = out,
              status = Faulted (NameError ''name 'x' is not defined'')\<rparr>)
      else if code = ''print(1); 1/0'' then
        \<lparr>emitted = ''1'' @ [CHR 0x0A], buffer_closed = False, bindings = ns1,
         stdout_binding = out, status = Faulted (ZeroDivisionError ''division by zero'')\<rparr>
      else if code = ''while True: pass'' then
        \<lparr>emitted = [], buffer_closed = False, bindings = ns1, stdout_binding = out,
         status = Running\<rparr>
      else if code = ''print(1); exec('while True: pass')'' then
        \<lparr>emitted = ''1'' @ [CHR 0x0A], buffer_closed = False, bindings = ns1,
         stdout_binding = out, status = Running\<rparr>
      else if code = ''import sys; sys.stdout.close(); exec('while True: pass')'' then
        \<lparr>emitted = [], buffer_closed = True,
         bindings = ns1(''sys'' \<mapsto> PObj ''module''), stdout_binding = out, status = Running\<rparr>
      else
        \<lparr>emitted = [], buffer_closed = False, bindings = ns1, stdout_binding = out,
         status = Finished\<rparr>)"

definition scenario_python :: interp where
  "scenario_python =
     \<lparr>TIMEOUT_MAX = 9223372036,
      ast_parse = (\<lambda>code. if code = ''x = (''
                           then Some (SyntaxError ([CHR 0x27] @ ''('' @ [CHR 0x27]
                                        @ '' was never closed (<unknown>, line 1)''))
                           else None),
      py_exec = scenario_exec\<rparr>"

section \<open>Agent\<close>

text \<open>
  A tool request of the completion service (\<open>tool_call.id\<close>,
  \<open>tool_call.function.name\<close>, \<open>tool_call.function.arguments\<close>) and a message of the
  conversation history, a dictionary whose keys may be absent.
\<close>

record tool_call =
  tc_id :: string
  tc_name :: string
  tc_arguments :: string

record message =
  m_role :: "string option"
  m_content :: "string option"
  m_tool_calls :: "tool_call list option"
  m_tool_call_id :: "string option"
  m_name :: "string option"

text \<open>
  What a completion brings: \<open>response.choices[0].message\<close>, an assistant message
  with a content, a list of tool requests, or both.
\<close>

record response =
  rsp_content :: "string option"
  rsp_tool_calls :: "tool_call list option"

text \<open>
  A registered callable takes keyword arguments and acts on the world outside the agent
  (the kernel among it): it returns a value or raises. \<open>printed_name\<close> is how
  Python's messages about the call name the function: its module, a dot, and its
  qualified name.
\<close>

record 'w tool =
  printed_name :: string
  callable :: "(string \<times> pyval) list \<Rightarrow> 'w \<Rightarrow> (fault + pyval) \<times> 'w"

text \<open>
  An entry of \<open>tools\<close>: \<open>tool.get("type")\<close>, and \<open>name\<close> and \<open>callable\<close> of
  \<open>tool.get("function", {})\<close>.
\<close>

record 'w tool_spec =
  ts_type :: "string option"
  ts_name :: "string option"
  ts_callable :: "'w tool option"

text \<open>
  The agent's configuration with the services it calls: the completion endpoint,
  \<open>json.loads\<close>, and \<open>str\<close> on values that are not strings.
\<close>

record 'w agent =
  system_prompt :: string
  tools :: "'w tool_spec list"
  agent_kernel :: pyval
  completion :: "message list \<Rightarrow> 'w \<Rightarrow> (fault + response) \<times> 'w"
  json_loads :: "string \<Rightarrow> fault + pyval"
  str_of :: "pyval \<Rightarrow> string"

definition JSONDecodeError :: "string \<Rightarrow> fault" where
  "JSONDecodeError d = Fault [''JSONDecodeError'', ''ValueError'', ''Exception'', ''BaseException''] d"

definition AttributeError :: "string \<Rightarrow> fault" where
  "AttributeError d = Fault [''AttributeError'', ''Exception'', ''BaseException''] d"

definition RuntimeError :: "string \<Rightarrow> fault" where
  "RuntimeError d = Fault [''RuntimeError'', ''Exception'', ''BaseException''] d"

definition KeyError :: "string \<Rightarrow> fault" where
  "KeyError d = Fault [''KeyError'', ''LookupError'', ''Exception'', ''BaseException''] d"

text \<open>
  \<open>_tool_functions\<close>, as \<open>__init__\<close> fills it: entries of type \<open>function\<close> with a
  non-empty name and a callable, a later entry replacing an earlier one of the same name.
\<close>

definition register :: "'w tool_spec \<Rightarrow> (string \<rightharpoonup> 'w tool) \<Rightarrow> (string \<rightharpoonup> 'w tool)" where
  "register t reg =
     (if ts_type t = Some ''function''
      then (case (ts_name t, ts_callable t) of
              (Some n, Some c) \<Rightarrow> if n \<noteq> [] then reg(n \<mapsto> c) else reg
            | _ \<Rightarrow> reg)
      else reg)"

definition tool_functions :: "'w agent \<Rightarrow> (string \<rightharpoonup> 'w tool)" where
  "tool_functions A = fold register (tools A) Map.empty"

text \<open>A text between single quotes, and the name of a value's type, as Python prints them.\<close>

definition quoted :: "string \<Rightarrow> string" where
  "quoted s = [CHR 0x27] @ s @ [CHR 0x27]"

fun type_name :: "pyval \<Rightarrow> string" where
  "type_name PNone = ''NoneType''"
| "type_name (PBool _) = ''bool''"
| "type_name (PInt _) = ''int''"
| "type_name (PStr _) = ''str''"
| "type_name (PList _) = ''list''"
| "type_name (PDict _) = ''dict''"
| "type_name (PObj n) = n"

text \<open>
  \<open>key in v\<close>, \<open>v[key]\<close> and \<open>v[key] = x\<close> for a string key: a dictionary has keys, a
  list has elements, a string has substrings; the other values raise \<open>TypeError\<close>.
  The wording of these messages varies with the Python version; only their class is
  used.
\<close>

fun py_in :: "string \<Rightarrow> pyval \<Rightarrow> fault + bool" where
  "py_in key (PDict kvs) = Inr (key \<in> fst ` set kvs)"
| "py_in key (PList xs) = Inr (PStr key \<in> set xs)"
| "py_in key (PStr s) = Inr (sublist key s)"
| "py_in key v = Inl (TypeError (''argument of type '' @ quoted (type_name v) @ '' is not iterable''))"

fun py_getitem :: "pyval \<Rightarrow> string \<Rightarrow> fault + pyval" where
  "py_getitem (PDict kvs) key =
     (case map_of kvs key of Some v \<Rightarrow> Inr v | None \<Rightarrow> Inl (KeyError (quoted key)))"
| "py_getitem (PList xs) key = Inl (TypeError ''list indices must be integers or slices, not str'')"
| "py_getitem (PStr s) key = Inl (TypeError (''string indices must be integers, not '' @ quoted ''str''))"
| "py_getitem v key = Inl (TypeError (quoted (type_name v) @ '' object is not subscriptable''))"

fun dict_set :: "string \<Rightarrow> pyval \<Rightarrow> (string \<times> pyval) list \<Rightarrow> (string \<times> pyval) list" where
  "dict_set key x [] = [(key, x)]"
| "dict_set key x ((k, v) # kvs) = (if k = key then (k, x) # kvs else (k, v) # dict_set key x kvs)"

fun py_setitem :: "pyval \<Rightarrow> string \<Rightarrow> pyval \<Rightarrow> fault + pyval" where
  "py_setitem (PDict kvs) key x = Inr (PDict (dict_set key x kvs))"
| "py_setitem (PList xs) key x = Inl (TypeError ''list indices must be integers or slices, not str'')"
| "py_setitem v key x =
     Inl (TypeError (quoted (type_name v) @ '' object does not support item assignment''))"

text \<open>\<open>str(v)\<close>: a string is itself.\<close>

definition py_str :: "'w agent \<Rightarrow> pyval \<Rightarrow> string" where
  "py_str A v = (case v of PStr s \<Rightarrow> s | _ \<Rightarrow> str_of A v)"

text \<open>\<open>_set_system_prompt\<close>\<close>

definition system_message :: "string \<Rightarrow> message" where
  "system_message p =
     \<lparr>m_role = Some ''system'', m_content = Some p, m_tool_calls = None,
      m_tool_call_id = None, m_name = None\<rparr>"

definition set_system_prompt :: "string \<Rightarrow> message list \<Rightarrow> message list" where
  "set_system_prompt p ms =
     (case ms of
        [] \<Rightarrow> ms @ [system_message p]
      | m # _ \<Rightarrow> if m_role m \<noteq> Some ''system'' then system_message p # ms else ms)"

text \<open>
  The first \<open>try\<close> of the loop body of \<open>_process_tool_calls\<close>, which parses the
  arguments to print them. It changes nothing; what matters is the exception that can
  leave it, since the handler is for \<open>JSONDecodeError\<close> only.
\<close>

definition show_arguments :: "'w agent \<Rightarrow> tool_call \<Rightarrow> fault option" where
  "show_arguments A tc =
     (let r = (case json_loads A (tc_arguments tc) of
                 Inl e \<Rightarrow> Inl e
               | Inr args \<Rightarrow>
                   if tc_name tc = ''code_execution''
                   then (case py_in ''code'' args of
                           Inl e \<Rightarrow> Inl e
                         | Inr True \<Rightarrow> py_getitem args ''code''
                         | Inr False \<Rightarrow> Inr args)
                   else Inr args)
      in case r of
           Inl e \<Rightarrow> if isinstance e ''JSONDecodeError'' then None else Some e
         | Inr _ \<Rightarrow> None)"

text \<open>\<open>tool_function(**tool_args)\<close>: only a mapping can be unpacked.\<close>

definition call_tool :: "'w tool \<Rightarrow> pyval \<Rightarrow> 'w \<Rightarrow> (fault + pyval) \<times> 'w" where
  "call_tool t args w =
     (case args of
        PDict kwargs \<Rightarrow> callable t kwargs w
      | _ \<Rightarrow> (Inl (TypeError (printed_name t @ ''() argument after ** must be a mapping, not ''
                               @ type_name args)), w))"

text \<open>The classes named by the \<open>except\<close> clause around the call of a tool.\<close>

definition caught :: "fault \<Rightarrow> bool" where
  "caught e =
     (isinstance e ''TypeError'' \<or> isinstance e ''ValueError''
      \<or> isinstance e ''AttributeError'' \<or> isinstance e ''RuntimeError'')"

record tool_call_response =
  tool_call_id :: string
  tool_name :: string
  tool_args :: pyval
  tool_response :: pyval

text \<open>
  The body of the first \<open>try\<close> of \<open>_execute_tool_call\<close>: the arguments are parsed,
  and the kernel is stored in them for the tool \<open>code_execution\<close>.
\<close>

definition parse_tool_args :: "'w agent \<Rightarrow> tool_call \<Rightarrow> fault + pyval" where
  "parse_tool_args A tc =
     (case json_loads A (tc_arguments tc) of
        Inl e \<Rightarrow> Inl e
      | Inr args \<Rightarrow>
          if tc_name tc = ''code_execution''
          then py_setitem args ''kernel'' (agent_kernel A)
          else Inr args)"

text \<open>\<open>_execute_tool_call\<close>; the left result is an exception that leaves it.\<close>

definition execute_tool_call ::
  "'w agent \<Rightarrow> tool_call \<Rightarrow> 'w \<Rightarrow> (fault + tool_call_response) \<times> 'w" where
  "execute_tool_call A tc w =
     (case parse_tool_args A tc of
        Inl e \<Rightarrow>
          if isinstance e ''JSONDecodeError''
          then (Inr \<lparr>tool_call_id = tc_id tc, tool_name = tc_name tc, tool_args = PDict [],
                     tool_response = PStr (''Error parsing tool arguments: '' @ detail e)\<rparr>, w)
          else (Inl e, w)
      | Inr args \<Rightarrow>
          (case tool_functions A (tc_name tc) of
             None \<Rightarrow>
               (Inr \<lparr>tool_call_id = tc_id tc, tool_name = tc_name tc, tool_args = args,
                     tool_response =
                       PStr (''Error: Tool '' @ quoted (tc_name tc) @ '' not found'')\<rparr>, w)
           | Some t \<Rightarrow>
               (case call_tool t args w of
                  (Inr v, w') \<Rightarrow>
                    (Inr \<lparr>tool_call_id = tc_id tc, tool_name = tc_name tc, tool_args = args,
                          tool_response = v\<rparr>, w')
                | (Inl e, w') \<Rightarrow>
                    if caught e
                    then (Inr \<lparr>tool_call_id = tc_id tc, tool_name = tc_name tc,
                               tool_args = args,
                               tool_response =
                                 PStr (''Error executing tool '' @ quoted (tc_name tc) @ '': ''
                                       @ detail e)\<rparr>, w')
                    else (Inl e, w'))))"

definition tool_message :: "'w agent \<Rightarrow> tool_call_response \<Rightarrow> message" where
  "tool_message A r =
     \<lparr>m_role = Some ''tool'', m_content = Some (py_str A (tool_response r)),
      m_tool_calls = None, m_tool_call_id = Some (tool_call_id r),
      m_name = Some (tool_name r)\<rparr>"

text \<open>
  \<open>_process_tool_calls\<close>: the history and the world after the loop, and the exception
  that ended it early, if any.
\<close>

fun process_tool_calls ::
  "'w agent \<Rightarrow> tool_call list \<Rightarrow> message list \<Rightarrow> 'w \<Rightarrow> fault option \<times> message list \<times> 'w" where
  "process_tool_calls A [] ms w = (None, ms, w)"
| "process_tool_calls A (tc # tcs) ms w =
     (case show_arguments A tc of
        Some e \<Rightarrow> (Some e, ms, w)
      | None \<Rightarrow>
          (case execute_tool_call A tc w of
             (Inl e, w') \<Rightarrow> (Some e, ms, w')
           | (Inr r, w') \<Rightarrow> process_tool_calls A tcs (ms @ [tool_message A r]) w'))"

text \<open>
  \<open>query\<close>. The loop runs as long as the completion service asks for tools, so it is
  given a number of rounds; \<open>Unfinished\<close> is a loop that is still running after them.
\<close>

record query_result =
  q_content :: string
  q_tool_calls :: "tool_call list option"

datatype query_outcome = Final query_result | Aborted fault | Unfinished

definition assistant_message :: "response \<Rightarrow> message" where
  "assistant_message r =
     \<lparr>m_role = Some ''assistant'', m_content = rsp_content r, m_tool_calls = rsp_tool_calls r,
      m_tool_call_id = None, m_name = None\<rparr>"

definition user_message :: "string \<Rightarrow> message" where
  "user_message p =
     \<lparr>m_role = Some ''user'', m_content = Some p, m_tool_calls = None,
      m_tool_call_id = None, m_name = None\<rparr>"

fun query_loop ::
  "'w agent \<Rightarrow> nat \<Rightarrow> message list \<Rightarrow> 'w \<Rightarrow> query_outcome \<times> message list \<times> 'w" where
  "query_loop A 0 ms w = (Unfinished, ms, w)"
| "query_loop A (Suc n) ms w =
     (case completion A ms w of
        (Inl e, w1) \<Rightarrow> (Aborted e, ms, w1)
      | (Inr r, w1) \<Rightarrow>
          (let ms1 = ms @ [assistant_message r] in
           case rsp_tool_calls r of
             Some (tc # tcs) \<Rightarrow>
               (case process_tool_calls A (tc # tcs) ms1 w1 of
                  (Some e, ms2, w2) \<Rightarrow> (Aborted e, ms2, w2)
                | (None, ms2, w2) \<Rightarrow> query_loop A n ms2 w2)
           | _ \<Rightarrow>
               (Final \<lparr>q_content = (case rsp_content r of Some c \<Rightarrow> c | None \<Rightarrow> []),
                       q_tool_calls = None\<rparr>, ms1, w1)))"

definition query ::
  "'w agent \<Rightarrow> nat \<Rightarrow> string \<Rightarrow> message list \<times> 'w \<Rightarrow> query_outcome \<times> message list \<times> 'w" where
  "query A rounds user_prompt mw =
     query_loop A rounds
       (set_system_prompt (system_prompt A) (fst mw) @ [user_message user_prompt]) (snd mw)"

text \<open>One \<open>query\<close> after another on the same history, whatever each one's outcome.\<close>

fun queries :: "'w agent \<Rightarrow> nat \<Rightarrow> string list \<Rightarrow> message list \<times> 'w \<Rightarrow> message list \<times> 'w" where
  "queries A rounds [] mw = mw"
| "queries A rounds (p # ps) mw = queries A rounds ps (snd (query A rounds p mw))"

text \<open>How many messages of a history have the role \<open>system\<close>.\<close>

definition is_system :: "message \<Rightarrow> bool" where
  "is_system m = (m_role m = Some ''system'')"

definition count_system :: "message list \<Rightarrow> nat" where
  "count_system ms = length (filter is_system ms)"

definition starts_with_system :: "message list \<Rightarrow> bool" where
  "starts_with_system ms = (case ms of [] \<Rightarrow> False | m # _ \<Rightarrow> is_system m)"

section \<open>The code execution tool\<close>

text \<open>
  \<open>code_execution(code, kernel)\<close>, called with keyword arguments: Python rejects a
  keyword that is not a parameter and a parameter without value, \<open>kernel.execute\<close>
  needs a kernel, and the result dictionary becomes the tool's text.
\<close>

definition kernel_handle :: pyval where
  "kernel_handle = PObj ''PersistentKernel''"

definition code_execution ::
  "interp \<Rightarrow> (string \<times> pyval) list \<Rightarrow> kernel \<times> world \<Rightarrow> (fault + pyval) \<times> (kernel \<times> world)" where
  "code_execution I kwargs kw =
     (case filter (\<lambda>kv. fst kv \<noteq> ''code'' \<and> fst kv \<noteq> ''kernel'') kwargs of
        kv # _ \<Rightarrow>
          (Inl (TypeError (''code_execution() got an unexpected keyword argument ''
                           @ quoted (fst kv))), kw)
      | [] \<Rightarrow>
          (case (map_of kwargs ''code'', map_of kwargs ''kernel'') of
             (Some code, Some h) \<Rightarrow>
               if h = kernel_handle
               then (case execute I code kw of
                       (Inl e, kw') \<Rightarrow> (Inl e, kw')
                     | (Inr result, kw') \<Rightarrow>
                         (Inr (PStr (if r_success result then r_output result
                                     else ''Error: '' @ (case r_error result of
                                                           Some e \<Rightarrow> e | None \<Rightarrow> ''None''))),
                          kw'))
               else (Inl (AttributeError (quoted (type_name h)
                                          @ '' object has no attribute '' @ quoted ''execute'')), kw)
           | (None, _) \<Rightarrow>
               (Inl (TypeError (''code_execution() missing 1 required positional argument: ''
                                @ quoted ''code'')), kw)
           | (_, None) \<Rightarrow>
               (Inl (TypeError (''code_execution() missing 1 required positional argument: ''
                                @ quoted ''kernel'')), kw)))"

text \<open>\<open>TOOLS_SCHEMA\<close>\<close>

definition TOOLS_SCHEMA :: "interp \<Rightarrow> (kernel \<times> world) tool_spec list" where
  "TOOLS_SCHEMA I =
     [\<lparr>ts_type = Some ''function'', ts_name = Some ''code_execution'',
       ts_callable =
         Some \<lparr>printed_name = ''codeact_retrieval.tools.code_execution.code_execution'',
               callable = code_execution I\<rparr>\<rparr>]"

section \<open>The search function\<close>

text \<open>
  \<open>code_search(query, top_k=5)\<close>, called with keyword arguments. \<open>get_repository\<close>
  raises \<open>RuntimeError\<close> as long as no repository has been given to the singleton;
  the repository's own \<open>search\<close> is a parameter.
\<close>

definition code_search ::
  "(pyval \<Rightarrow> pyval \<Rightarrow> fault + pyval) option \<Rightarrow> (string \<times> pyval) list \<Rightarrow> 'w
     \<Rightarrow> (fault + pyval) \<times> 'w" where
  "code_search repository kwargs w =
     (case filter (\<lambda>kv. fst kv \<noteq> ''query'' \<and> fst kv \<noteq> ''top_k'') kwargs of
        kv # _ \<Rightarrow>
          (Inl (TypeError (''code_search() got an unexpected keyword argument ''
                           @ quoted (fst kv))), w)
      | [] \<Rightarrow>
          (case map_of kwargs ''query'' of
             None \<Rightarrow>
               (Inl (TypeError (''code_search() missing 1 required positional argument: ''
                                @ quoted ''query'')), w)
           | Some q \<Rightarrow>
               (case repository of
                  None \<Rightarrow>
                    (Inl (RuntimeError ''Repository not initialized. Call initialize() first.''),
                     w)
                | Some search \<Rightarrow>
                    (search q (case map_of kwargs ''top_k'' of
                                     None \<Rightarrow> PInt 5 | Some top_k \<Rightarrow> top_k), w))))"

section \<open>A session to run the definitions on\<close>

text \<open>
  An agent as \<open>initialize_agent\<close> builds it, with two more tools: \<open>code_search\<close>,
  whose repository has not been initialised, so that it raises the \<open>RuntimeError\<close> of
  \<open>get_repository\<close>, and \<open>read_env\<close>, a function without parameters that looks a
  variable up which the environment does not have and so raises a \<open>KeyError\<close>. The
  completion service asks for tools until the history ends with a tool message, then
  answers. \<open>json.loads\<close> is given on the payloads that the session uses.
\<close>

definition code_search_tool :: "(kernel \<times> world) tool" where
  "code_search_tool =
     \<lparr>printed_name = ''codeact_retrieval.functions.search.code_search'',
      callable = code_search None\<rparr>"

definition read_env_tool :: "(kernel \<times> world) tool" where
  "read_env_tool =
     \<lparr>printed_name = ''tools.read_env'',
      callable = (\<lambda>kwargs kw.
        case kwargs of
          [] \<Rightarrow> (Inl (KeyError (quoted ''HOME'')), kw)
        | kv # _ \<Rightarrow>
            (Inl (TypeError (''read_env() got an unexpected keyword argument ''
                             @ quoted (fst kv))), kw))\<rparr>"

definition session_json :: "string \<Rightarrow> fault + pyval" where
  \<open>session_json payload =
     (if payload = ''{"code": "x = 2"}'' then Inr (PDict [(''code'', PStr ''x = 2'')])
      else if payload = ''{"code": "print(x)"}'' then Inr (PDict [(''code'', PStr ''print(x)'')])
      else if payload = ''{"query": "parser"}'' then Inr (PDict [(''query'', PStr ''parser'')])
      else if payload = ''{}'' then Inr (PDict [])
      else if payload = ''3'' then Inr (PInt 3)
      else if payload = ''{''
        then Inl (JSONDecodeError
               ''Expecting property name enclosed in double quotes: line 1 column 2 (char 1)'')
      else Inl (JSONDecodeError ''Expecting value: line 1 column 1 (char 0)''))\<close>

definition session_requests :: "tool_call list" where
  \<open>session_requests =
     [\<lparr>tc_id = ''call_1'', tc_name = ''code_execution'', tc_arguments = ''{"code": "x = 2"}''\<rparr>,
      \<lparr>tc_id = ''call_2'', tc_name = ''code_execution'', tc_arguments = ''{''\<rparr>,
      \<lparr>tc_id = ''call_3'', tc_name = ''web_search'', tc_arguments = ''{"query": "parser"}''\<rparr>,
      \<lparr>tc_id = ''call_4'', tc_name = ''code_search'', tc_arguments = ''{"query": "parser"}''\<rparr>,
      \<lparr>tc_id = ''call_5'', tc_name = ''code_execution'', tc_arguments = ''{"code": "print(x)"}''\<rparr>]\<close>

definition session_completion ::
  "message list \<Rightarrow> kernel \<times> world \<Rightarrow> (fault + response) \<times> (kernel \<times> world)" where
  "session_completion ms kw =
     (case rev ms of
        [] \<Rightarrow> (Inr \<lparr>rsp_content = Some ''Hello'', rsp_tool_calls = None\<rparr>, kw)
      | m # _ \<Rightarrow>
          if m_role m = Some ''tool''
          then (Inr \<lparr>rsp_content = Some ''Done'', rsp_tool_calls = None\<rparr>, kw)
          else (Inr \<lparr>rsp_content = None, rsp_tool_calls = Some session_requests\<rparr>, kw))"

definition session_agent :: "(kernel \<times> world) agent" where
  "session_agent =
     \<lparr>system_prompt = ''You are a code retrieval agent.'',
      tools = TOOLS_SCHEMA scenario_python
              @ [\<lparr>ts_type = Some ''function'', ts_name = Some ''code_search'',
                  ts_callable = Some code_search_tool\<rparr>,
                 \<lparr>ts_type = Some ''function'', ts_name = Some ''read_env'',
                  ts_callable = Some read_env_tool\<rparr>],
      agent_kernel = kernel_handle,
      completion = session_completion,
      json_loads = session_json,
      str_of = (\<lambda>v. ''<object>'')\<rparr>"

text \<open>
  The kernel of \<open>initialize_agent\<close>: \<open>PersistentKernel(namespace=FUNCTIONS, imports="")\<close>,
  where \<open>FUNCTIONS\<close> binds the search function, and the process it runs in.
\<close>

definition session_world :: world where
  "session_world = \<lparr>sys_stdout = ProcessStdout\<rparr>"

definition FUNCTIONS :: namespace where
  "FUNCTIONS = [''code_search'' \<mapsto> PObj ''function'']"

definition session_kernel :: kernel where
  "session_kernel = fst (snd (init scenario_python (Some FUNCTIONS) [] 30 session_world))"

text \<open>
  The same agent with a completion service whose requests include one for \<open>read_env\<close>.
\<close>

definition failing_requests :: "tool_call list" where
  \<open>failing_requests =
     [\<lparr>tc_id = ''call_1'', tc_name = ''code_execution'', tc_arguments = ''{"code": "x = 2"}''\<rparr>,
      \<lparr>tc_id = ''call_2'', tc_name = ''read_env'', tc_arguments = ''{}''\<rparr>,
      \<lparr>tc_id = ''call_3'', tc_name = ''code_execution'', tc_arguments = ''{"code": "print(x)"}''\<rparr>]\<close>

definition failing_agent :: "(kernel \<times> world) agent" where
  "failing_agent =
     session_agent\<lparr>completion :=
       (\<lambda>ms kw. (Inr \<lparr>rsp_content = None, rsp_tool_calls = Some failing_requests\<rparr>, kw))\<rparr>"

section \<open>Properties of the kernel\<close>

lemma join_wait_accepted: "k_timeout k \<le> TIMEOUT_MAX I \<Longrightarrow> join_wait I k = k_timeout k"
  by (simp add: join_wait_def)

lemma execute_namespace:
  "k_timeout k \<le> TIMEOUT_MAX I \<Longrightarrow>
   k_namespace (fst (snd (execute I (PStr src) (k, w)))) =
     bindings (safe_exec I src (k_namespace k) StringIO (Some (k_timeout k)))"
  by (simp add: execute_def Let_def join_wait_def)

lemma execute_frame:
  "sys_stdout (snd (snd (execute I code (k, w)))) = sys_stdout w"
  "k_imports (fst (snd (execute I code (k, w)))) = k_imports k"
  "k_timeout (fst (snd (execute I code (k, w)))) = k_timeout k"
  by (simp_all add: execute_def Let_def split: pyval.splits)

text \<open>
  Whenever the execution unit has ended by the time \<open>join\<close> returns, whether it
  returned or raised, and has left the buffer open, \<open>execute\<close> reports success with
  no error.
\<close>

lemma execute_unit_ended:
  "k_timeout k \<le> TIMEOUT_MAX I \<Longrightarrow>
   status (safe_exec I src (k_namespace k) StringIO (Some (k_timeout k))) \<noteq> Running \<Longrightarrow>
   \<not> buffer_closed (safe_exec I src (k_namespace k) StringIO (Some (k_timeout k))) \<Longrightarrow>
   fst (execute I (PStr src) (k, w)) =
     Inr \<lparr>r_success = True,
          r_output = emitted (safe_exec I src (k_namespace k) StringIO (Some (k_timeout k))),
          r_error = None\<rparr>"
  by (simp add: execute_def execute_try_def getvalue_def join_wait_def Let_def)

text \<open>
  An exception leaves \<open>execute\<close> only when the buffer can no longer be read: as long
  as the code has not closed it, \<open>execute\<close> returns a result.
\<close>

lemma execute_returns:
  "\<not> buffer_closed (safe_exec I src (k_namespace k) StringIO (Some (join_wait I k))) \<Longrightarrow>
   \<exists>res. fst (execute I (PStr src) (k, w)) = Inr res"
  by (simp add: execute_def execute_try_def getvalue_def Let_def TimeoutError_def
      OverflowError_def isinstance_def)

lemma reset_namespace:
  "k_namespace (fst (snd (reset I (k, w)))) =
     k_namespace (fst (snd (init I None (k_imports k) t w)))"
  by (simp add: reset_def init_def Let_def)

text \<open>
  C1. The claim is that a syntax defect and a runtime fault of the submitted code come
  back as a result with \<open>success = False\<close> and the fault's description. The code does
  not do that: \<open>_safe_exec\<close> raises inside the thread that \<open>execute\<close> starts, the
  exception ends that thread, and \<open>execute\<close> only looks at whether the thread is
  still alive. On the text \<open>x = (\<close>, which does not parse, and on
  \<open>print(1); 1/0\<close>, which divides by zero after printing, \<open>execute\<close> returns
  \<open>success = True\<close> and \<open>error = None\<close>, for every caller and every kernel whose
  timeout \<open>join\<close> accepts. No exception leaves \<open>execute\<close> there, as the claim says.
\<close>

theorem execute_reports_success_for_faulty_code:
  assumes "k_timeout k \<le> TIMEOUT_MAX scenario_python"
  shows "status (safe_exec scenario_python ''x = ('' (k_namespace k) StringIO
                   (Some (k_timeout k)))
           = Faulted (SyntaxError (''Invalid Python syntax: '' @ [CHR 0x27] @ ''('' @ [CHR 0x27]
                                   @ '' was never closed (<unknown>, line 1)''))
         \<and> fst (execute scenario_python (PStr ''x = ('') (k, w))
           = Inr \<lparr>r_success = True, r_output = [], r_error = None\<rparr>
         \<and> status (safe_exec scenario_python ''print(1); 1/0'' (k_namespace k) StringIO
                     (Some (k_timeout k)))
           = Faulted (ZeroDivisionError ''division by zero'')
         \<and> fst (execute scenario_python (PStr ''print(1); 1/0'') (k, w))
           = Inr \<lparr>r_success = True, r_output = ''1'' @ [CHR 0x0A], r_error = None\<rparr>"
  using assms
  by (simp add: execute_def execute_try_def getvalue_def join_wait_def Let_def safe_exec_def
      scenario_python_def scenario_exec_def isinstance_def SyntaxError_def)

theorem execute_reports_success_for_faulty_code_witness:
  "k_timeout session_kernel \<le> TIMEOUT_MAX scenario_python
   \<and> fst (execute scenario_python (PStr ''x = ('') (session_kernel, session_world))
     = Inr \<lparr>r_success = True, r_output = [], r_error = None\<rparr>
   \<and> fst (execute scenario_python (PStr ''print(1); 1/0'') (session_kernel, session_world))
     = Inr \<lparr>r_success = True, r_output = ''1'' @ [CHR 0x0A], r_error = None\<rparr>"
proof -
  have accepted: "k_timeout session_kernel \<le> TIMEOUT_MAX scenario_python"
    by (simp add: session_kernel_def init_def scenario_python_def)
  show ?thesis
    using accepted execute_reports_success_for_faulty_code [OF accepted, of session_world]
    by simp
qed




text \<open>
  C7, as the claim has it, fails for a kernel that was constructed with bindings, as the
  one of \<open>initialize_agent\<close> is: \<open>reset\<close> clears them too, so the namespace after
  \<open>reset\<close> is not the one the constructor left.
\<close>

theorem reset_drops_constructor_bindings:
  "k_namespace (fst (snd (reset scenario_python
       (snd (execute scenario_python (PStr ''x = 2'') (session_kernel, session_world))))))
   \<noteq> k_namespace session_kernel"
proof
  assume "k_namespace (fst (snd (reset scenario_python
       (snd (execute scenario_python (PStr ''x = 2'') (session_kernel, session_world))))))
     = k_namespace session_kernel"
  then have "k_namespace (fst (snd (reset scenario_python
       (snd (execute scenario_python (PStr ''x = 2'') (session_kernel, session_world))))))
       ''code_search''
     = k_namespace session_kernel ''code_search''"
    by simp
  then show False
    by (simp add: reset_def execute_def Let_def session_kernel_def init_def FUNCTIONS_def)
qed

text \<open>
  C7, amended. Let the kernel's timeout be one that \<open>join\<close> accepts, and let Python
  run \<open>x = 2\<close> and \<open>print(x)\<close> within it as it does: the first binds \<open>x\<close> to 2, the
  second prints \<open>2\<close>, leaving the buffer open, when \<open>x\<close> is bound to 2 and raises
  \<open>NameError\<close> when \<open>x\<close> is unbound; and let the imports not bind \<open>x\<close>.
  Then \<open>execute("x = 2")\<close> followed by \<open>execute("print(x)")\<close> gives a second result
  whose output contains \<open>2\<close>; \<open>reset\<close> afterwards leaves the namespace that a kernel
  constructed with the same imports and no initial namespace starts with; \<open>x\<close> is
  unbound in it, and the execution unit that then runs \<open>print(x)\<close> raises
  \<open>NameError\<close>.
\<close>

theorem namespace_persists_until_reset:
  assumes accepted: "k_timeout k \<le> TIMEOUT_MAX I"
    and parse: "ast_parse I ''x = 2'' = None" "ast_parse I ''print(x)'' = None"
    and assign:
      "\<And>ns. status (py_exec I ''x = 2'' ns StringIO (Some (k_timeout k))) = Finished
             \<and> bindings (py_exec I ''x = 2'' ns StringIO (Some (k_timeout k))) ''x''
               = Some (PInt 2)"
    and print_bound:
      "\<And>ns. ns ''x'' = Some (PInt 2) \<Longrightarrow>
             status (py_exec I ''print(x)'' ns StringIO (Some (k_timeout k))) = Finished
             \<and> emitted (py_exec I ''print(x)'' ns StringIO (Some (k_timeout k)))
               = ''2'' @ [CHR 0x0A]
             \<and> \<not> buffer_closed (py_exec I ''print(x)'' ns StringIO (Some (k_timeout k)))"
    and print_unbound:
      "\<And>ns. ns ''x'' = None \<Longrightarrow>
             \<exists>d. status (py_exec I ''print(x)'' ns StringIO (Some (k_timeout k)))
                  = Faulted (NameError d)"
    and imports_clean:
      "k_imports k \<noteq> [] \<Longrightarrow>
         bindings (safe_exec I (k_imports k) Map.empty (sys_stdout w) None) ''x'' = None"
  shows "let kw1 = snd (execute I (PStr ''x = 2'') (k, w));
             r2 = execute I (PStr ''print(x)'') kw1;
             kw3 = snd (reset I (snd r2))
         in (\<exists>res. fst r2 = Inr res \<and> r_success res \<and> sublist ''2'' (r_output res))
          \<and> k_namespace (fst kw3)
              = k_namespace (fst (snd (init I None (k_imports k) (k_timeout k) w)))
          \<and> k_namespace (fst kw3) ''x'' = None
          \<and> (\<exists>d. status (safe_exec I ''print(x)'' (k_namespace (fst kw3)) StringIO
                            (Some (k_timeout k)))
                   = Faulted (NameError d))"
proof -
  obtain k1 w1 where kw1: "snd (execute I (PStr ''x = 2'') (k, w)) = (k1, w1)"
    by (cases "snd (execute I (PStr ''x = 2'') (k, w))")
  have k1: "k_imports k1 = k_imports k" "k_timeout k1 = k_timeout k" "sys_stdout w1 = sys_stdout w"
    using execute_frame[of I "PStr ''x = 2''" k w] kw1 by simp_all
  have x1: "k_namespace k1 ''x'' = Some (PInt 2)"
    using execute_namespace[OF accepted, of "''x = 2''" w] kw1 parse(1) assign
    by (simp add: safe_exec_def)
  obtain r k2 w2 where r2: "execute I (PStr ''print(x)'') (k1, w1) = (r, k2, w2)"
    by (cases "execute I (PStr ''print(x)'') (k1, w1)")
  have k2: "k_imports k2 = k_imports k" "k_timeout k2 = k_timeout k" "sys_stdout w2 = sys_stdout w"
    using execute_frame[of I "PStr ''print(x)''" k1 w1] r2 k1 by simp_all
  have s2: "safe_exec I ''print(x)'' (k_namespace k1) StringIO (Some (k_timeout k1))
              = py_exec I ''print(x)'' (k_namespace k1) StringIO (Some (k_timeout k))"
    using parse(2) k1 by (simp add: safe_exec_def)
  have "r = Inr \<lparr>r_success = True, r_output = ''2'' @ [CHR 0x0A], r_error = None\<rparr>"
    using execute_unit_ended[of k1 I "''print(x)''" w1] r2 s2 print_bound[of "k_namespace k1"] x1
      k1 accepted
    by simp
  then have persisted: "\<exists>res. r = Inr res \<and> r_success res \<and> sublist ''2'' (r_output res)"
    by simp
  obtain st k3 w3 where r3: "reset I (k2, w2) = (st, k3, w3)"
    by (cases "reset I (k2, w2)")
  have baseline:
    "k_namespace k3 = k_namespace (fst (snd (init I None (k_imports k) (k_timeout k) w)))"
    using reset_namespace[of I k2 w2 "k_timeout k"] r3 k2
    by (simp add: init_def Let_def)
  have unbound: "k_namespace k3 ''x'' = None"
    using baseline imports_clean by (simp add: init_def Let_def)
  have faults: "\<exists>d. status (safe_exec I ''print(x)'' (k_namespace k3) StringIO (Some (k_timeout k)))
                   = Faulted (NameError d)"
    using print_unbound[of "k_namespace k3"] unbound parse(2) by (simp add: safe_exec_def)
  show ?thesis
    using persisted baseline unbound faults by (simp add: kw1 r2 r3 Let_def)
qed

theorem namespace_persists_until_reset_witness:
  "let kw1 = snd (execute scenario_python (PStr ''x = 2'') (session_kernel, session_world));
       r2 = execute scenario_python (PStr ''print(x)'') kw1;
       kw3 = snd (reset scenario_python (snd r2))
   in (\<exists>res. fst r2 = Inr res \<and> r_success res \<and> sublist ''2'' (r_output res))
    \<and> k_namespace (fst kw3)
        = k_namespace (fst (snd (init scenario_python None (k_imports session_kernel)
                                   (k_timeout session_kernel) session_world)))
    \<and> k_namespace (fst kw3) ''x'' = None
    \<and> (\<exists>d. status (safe_exec scenario_python ''print(x)'' (k_namespace (fst kw3)) StringIO
                      (Some (k_timeout session_kernel)))
             = Faulted (NameError d))"
  apply (rule namespace_persists_until_reset)
       apply (simp_all add: scenario_python_def scenario_exec_def session_kernel_def init_def
      Let_def NameError_def str_int_def digits.simps split: option.splits pyval.splits)
  done

text \<open>
  C8. \<open>execute_background\<close> returns the same dictionary for every code, every kernel
  and every course of the thread it starts: \<open>success = True\<close>, the fixed message, and
  no error.
\<close>

theorem execute_background_result:
  "fst (execute_background I alive code kw)
     = \<lparr>r_success = True, r_output = ''Code started in background thread'', r_error = None\<rparr>"
  by (simp add: execute_background_def Let_def)

text \<open>
  C9. For a value that is not a string, \<open>execute\<close> returns the result with
  \<open>success = False\<close>, empty output and the error \<open>Code must be a string\<close>; the kernel
  and the process are as before, and the interpreter has no part in it.
\<close>

theorem execute_rejects_non_string:
  assumes "\<forall>s. code \<noteq> PStr s"
  shows "execute I code (k, w)
           = (Inr \<lparr>r_success = False, r_output = [], r_error = Some ''Code must be a string''\<rparr>,
              k, w)"
  using assms by (cases code) (simp_all add: execute_def)

theorem execute_rejects_non_string_witness:
  "(\<forall>s. PInt 5 \<noteq> PStr s)
   \<and> execute scenario_python (PInt 5) (session_kernel, session_world)
     = (Inr \<lparr>r_success = False, r_output = [], r_error = Some ''Code must be a string''\<rparr>,
        session_kernel, session_world)"
  using execute_rejects_non_string [of "PInt 5" scenario_python session_kernel session_world]
  by simp

text \<open>
  C10. After \<open>execute\<close>, \<open>sys.stdout\<close> is bound to what it was bound to before the
  call, whatever the code did to it and however the call ended.
\<close>

theorem execute_restores_stdout:
  "sys_stdout (snd (snd (execute I code (k, w)))) = sys_stdout w"
  by (simp add: execute_def Let_def split: pyval.splits)

section \<open>Properties of the agent\<close>

text \<open>The definitions to unfold when a session is run.\<close>

lemmas session_defs =
  session_requests_def failing_requests_def failing_agent_def session_agent_def
  session_json_def session_completion_def session_kernel_def session_world_def FUNCTIONS_def
  code_search_tool_def read_env_tool_def TOOLS_SCHEMA_def scenario_python_def scenario_exec_def

lemmas agent_defs =
  show_arguments_def execute_tool_call_def parse_tool_args_def tool_functions_def register_def
  call_tool_def caught_def isinstance_def tool_message_def py_str_def quoted_def query_def
  set_system_prompt_def user_message_def system_message_def assistant_message_def
  RuntimeError_def JSONDecodeError_def KeyError_def TypeError_def

lemmas kernel_defs =
  code_execution_def code_search_def kernel_handle_def execute_def safe_exec_def
  execute_try_def getvalue_def join_wait_def init_def str_int_def digits.simps Let_def

lemma execute_tool_call_ids:
  "execute_tool_call A tc w = (Inr r, w') \<Longrightarrow> tool_call_id r = tc_id tc \<and> tool_name r = tc_name tc"
  by (auto simp: execute_tool_call_def split: sum.splits if_splits option.splits prod.splits)

lemma count_system_append [simp]: "count_system (xs @ ys) = count_system xs + count_system ys"
  by (simp add: count_system_def)

lemma count_system_Cons [simp]:
  "count_system (m # ms) = (if is_system m then Suc (count_system ms) else count_system ms)"
  by (simp add: count_system_def)

lemma count_system_Nil [simp]: "count_system [] = 0"
  by (simp add: count_system_def)

lemma count_system_tool_roles:
  "map m_role new = replicate (length new) (Some ''tool'') \<Longrightarrow> count_system new = 0"
  by (induction new) (simp_all add: is_system_def)

text \<open>
  What \<open>_process_tool_calls\<close> does to the history, however it ends: it appends one
  message of role \<open>tool\<close> for each request of an initial part of the list, carrying that
  request's id, and for all of them when no exception ends the loop.
\<close>

lemma process_tool_calls_appends:
  "process_tool_calls A tcs ms w = (r, ms', w') \<Longrightarrow>
     \<exists>new. ms' = ms @ new \<and> length new \<le> length tcs
       \<and> map m_role new = replicate (length new) (Some ''tool'')
       \<and> map m_tool_call_id new = map (\<lambda>tc. Some (tc_id tc)) (take (length new) tcs)
       \<and> (r = None \<longrightarrow> length new = length tcs)"
proof (induction tcs arbitrary: ms w)
  case Nil
  then show ?case by simp
next
  case (Cons tc tcs)
  show ?case
  proof (cases "show_arguments A tc")
    case (Some e)
    with Cons.prems have "r = Some e" "ms' = ms" by simp_all
    then show ?thesis by (intro exI[of _ "[]"]) simp
  next
    case None
    obtain x w1 where ex: "execute_tool_call A tc w = (x, w1)"
      by (cases "execute_tool_call A tc w")
    show ?thesis
    proof (cases x)
      case (Inl e)
      with None ex Cons.prems have "r = Some e" "ms' = ms" by simp_all
      then show ?thesis by (intro exI[of _ "[]"]) simp
    next
      case (Inr resp)
      with None ex Cons.prems
      have "process_tool_calls A tcs (ms @ [tool_message A resp]) w1 = (r, ms', w')" by simp
      from Cons.IH[OF this] obtain new where
        n: "ms' = (ms @ [tool_message A resp]) @ new" "length new \<le> length tcs"
           "map m_role new = replicate (length new) (Some ''tool'')"
           "map m_tool_call_id new = map (\<lambda>tc. Some (tc_id tc)) (take (length new) tcs)"
           "r = None \<longrightarrow> length new = length tcs" by blast
      from ex Inr have ids: "tool_call_id resp = tc_id tc"
        using execute_tool_call_ids[of A tc w resp w1] by simp
      let ?new = "tool_message A resp # new"
      have "ms' = ms @ ?new" using n(1) by simp
      moreover have "length ?new \<le> length (tc # tcs)" using n(2) by simp
      moreover have "map m_role ?new = replicate (length ?new) (Some ''tool'')"
        using n(3) by (simp add: tool_message_def)
      moreover have "map m_tool_call_id ?new
                       = map (\<lambda>tc. Some (tc_id tc)) (take (length ?new) (tc # tcs))"
        using n(4) ids by (simp add: tool_message_def)
      moreover have "r = None \<longrightarrow> length ?new = length (tc # tcs)" using n(5) by simp
      ultimately show ?thesis by blast
    qed
  qed
qed

lemma process_tool_calls_no_system:
  assumes "process_tool_calls A tcs ms w = (r, ms', w')"
  shows "\<exists>new. ms' = ms @ new \<and> count_system new = 0"
  using process_tool_calls_appends[OF assms] count_system_tool_roles by blast

lemma query_loop_no_system:
  "query_loop A n ms w = (out, ms', w') \<Longrightarrow> \<exists>new. ms' = ms @ new \<and> count_system new = 0"
proof (induction n arbitrary: ms w)
  case 0
  then show ?case by simp
next
  case (Suc n)
  obtain x w1 where c: "completion A ms w = (x, w1)" by (cases "completion A ms w")
  show ?case
  proof (cases x)
    case (Inl e)
    with c Suc.prems show ?thesis by simp
  next
    case (Inr r)
    let ?ms1 = "ms @ [assistant_message r]"
    have a: "\<not> is_system (assistant_message r)"
      by (simp add: is_system_def assistant_message_def)
    show ?thesis
    proof (cases "\<exists>tc tcs. rsp_tool_calls r = Some (tc # tcs)")
      case False
      then have "ms' = ?ms1" using c Inr Suc.prems
        by (auto simp: Let_def split: option.splits list.splits)
      moreover have "count_system [assistant_message r] = 0" using a by simp
      ultimately show ?thesis by blast
    next
      case True
      then obtain tc tcs where t: "rsp_tool_calls r = Some (tc # tcs)" by blast
      obtain f ms2 w2 where p: "process_tool_calls A (tc # tcs) ?ms1 w1 = (f, ms2, w2)"
        by (cases "process_tool_calls A (tc # tcs) ?ms1 w1")
      from process_tool_calls_no_system[OF p] obtain new1 where
        n1: "ms2 = ?ms1 @ new1" "count_system new1 = 0" by blast
      show ?thesis
      proof (cases f)
        case (Some e)
        then have "ms' = ms2" using c Inr t p Suc.prems by (simp add: Let_def)
        then have "ms' = ms @ ([assistant_message r] @ new1)" using n1 by simp
        moreover have "count_system ([assistant_message r] @ new1) = 0" using a n1 by simp
        ultimately show ?thesis by blast
      next
        case None
        then have "query_loop A n ms2 w2 = (out, ms', w')"
          using c Inr t p Suc.prems by (simp add: Let_def)
        from Suc.IH[OF this] obtain new2 where
          n2: "ms' = ms2 @ new2" "count_system new2 = 0" by blast
        have "ms' = ms @ ([assistant_message r] @ new1 @ new2)" using n1 n2 by simp
        moreover have "count_system ([assistant_message r] @ new1 @ new2) = 0"
          using a n1 n2 by simp
        ultimately show ?thesis by blast
      qed
    qed
  qed
qed

lemma set_system_prompt_starts: "starts_with_system (set_system_prompt p ms)"
  by (cases ms)
    (simp_all add: set_system_prompt_def starts_with_system_def is_system_def system_message_def)

lemma set_system_prompt_count:
  "count_system (set_system_prompt p ms) = Suc (count_system (tl ms))"
  by (cases ms) (simp_all add: set_system_prompt_def is_system_def system_message_def)

lemma starts_with_system_append: "starts_with_system xs \<Longrightarrow> starts_with_system (xs @ ys)"
  by (cases xs) (simp_all add: starts_with_system_def)

lemma starts_with_system_count:
  "starts_with_system ms \<Longrightarrow> Suc (count_system (tl ms)) = count_system ms"
  by (cases ms) (simp_all add: starts_with_system_def)

lemma query_history:
  "starts_with_system (fst (snd (query A n p (ms, w))))
   \<and> count_system (fst (snd (query A n p (ms, w)))) = Suc (count_system (tl ms))"
proof -
  let ?h0 = "set_system_prompt (system_prompt A) ms @ [user_message p]"
  obtain out ms' w' where q: "query_loop A n ?h0 w = (out, ms', w')"
    by (cases "query_loop A n ?h0 w")
  from query_loop_no_system[OF q] obtain new where
    n: "ms' = ?h0 @ new" "count_system new = 0" by blast
  have u: "\<not> is_system (user_message p)"
    by (simp add: is_system_def user_message_def)
  have "fst (snd (query A n p (ms, w))) = ms'" using q by (simp add: query_def)
  moreover have "starts_with_system ms'"
    unfolding n(1) using set_system_prompt_starts starts_with_system_append
    by (metis append.assoc)
  moreover have "count_system ms' = Suc (count_system (tl ms))"
    using n u by (simp add: set_system_prompt_count)
  ultimately show ?thesis by simp
qed

lemma queries_keep_history:
  "starts_with_system ms \<Longrightarrow>
     starts_with_system (fst (queries A n ps (ms, w)))
     \<and> count_system (fst (queries A n ps (ms, w))) = count_system ms"
proof (induction ps arbitrary: ms w)
  case Nil
  then show ?case by simp
next
  case (Cons p ps)
  obtain out ms1 w1 where q: "query A n p (ms, w) = (out, ms1, w1)"
    by (cases "query A n p (ms, w)")
  have h: "starts_with_system ms1" "count_system ms1 = count_system ms"
    using query_history[of A n p ms w] q starts_with_system_count[OF Cons.prems] by simp_all
  from Cons.IH[OF h(1), of w1] h(2) q show ?case by simp
qed

lemma queries_history:
  assumes "ps \<noteq> []"
  shows "starts_with_system (fst (queries A n ps (ms, w)))
     \<and> count_system (fst (queries A n ps (ms, w))) = Suc (count_system (tl ms))"
proof -
  obtain p qs where ps: "ps = p # qs" using assms by (cases ps) auto
  obtain out ms1 w1 where q: "query A n p (ms, w) = (out, ms1, w1)"
    by (cases "query A n p (ms, w)")
  have h: "starts_with_system ms1" "count_system ms1 = Suc (count_system (tl ms))"
    using query_history[of A n p ms w] q by simp_all
  from queries_keep_history[OF h(1), of A n qs w1] h(2) ps q show ?thesis by simp
qed

lemma in_keys_map_of: "key \<in> fst ` set kvs \<Longrightarrow> \<exists>v. map_of kvs key = Some v"
  by (cases "map_of kvs key") (simp_all add: map_of_eq_None_iff)

lemma show_arguments_dict:
  assumes j: "json_loads A (tc_arguments tc) = Inr (PDict kvs)"
  shows "show_arguments A tc = None"
proof (cases "tc_name tc = ''code_execution''")
  case False
  with j show ?thesis by (simp add: show_arguments_def)
next
  case True
  show ?thesis
  proof (cases "''code'' \<in> fst ` set kvs")
    case present: True
    from in_keys_map_of[OF present] obtain v where "map_of kvs ''code'' = Some v" ..
    with True j present show ?thesis by (simp add: show_arguments_def)
  next
    case absent: False
    with True j show ?thesis by (simp add: show_arguments_def)
  qed
qed

lemma py_setitem_dict: "py_setitem v key x = Inr args \<Longrightarrow> \<exists>kvs. v = PDict kvs"
  by (cases v) simp_all

lemma show_arguments_parsed:
  assumes "parse_tool_args A tc = Inr args"
  shows "show_arguments A tc = None"
proof (cases "json_loads A (tc_arguments tc)")
  case (Inl e)
  with assms show ?thesis by (simp add: parse_tool_args_def)
next
  case (Inr v)
  show ?thesis
  proof (cases "tc_name tc = ''code_execution''")
    case True
    with assms Inr have "py_setitem v ''kernel'' (agent_kernel A) = Inr args"
      by (simp add: parse_tool_args_def)
    from py_setitem_dict[OF this] obtain kvs where "v = PDict kvs" ..
    with Inr have "json_loads A (tc_arguments tc) = Inr (PDict kvs)" by simp
    then show ?thesis by (rule show_arguments_dict)
  next
    case False
    with Inr show ?thesis by (simp add: show_arguments_def)
  qed
qed


text \<open>Requests that are dispatched before others do not depend on them.\<close>

lemma process_tool_calls_append:
  "process_tool_calls A pre ms w = (None, ms1, w1) \<Longrightarrow>
     process_tool_calls A (pre @ rest) ms w = process_tool_calls A rest ms1 w1"
proof (induction pre arbitrary: ms w)
  case Nil
  then show ?case by simp
next
  case (Cons tc pre)
  show ?case
  proof (cases "show_arguments A tc")
    case (Some e)
    with Cons.prems show ?thesis by simp
  next
    case None
    obtain x w' where ex: "execute_tool_call A tc w = (x, w')"
      by (cases "execute_tool_call A tc w")
    show ?thesis
    proof (cases x)
      case (Inl e)
      with None ex Cons.prems show ?thesis by simp
    next
      case (Inr resp)
      with None ex Cons.prems Cons.IH[of "ms @ [tool_message A resp]" w'] show ?thesis
        by simp
    qed
  qed
qed

text \<open>
  Whatever the requests of one assistant message are, \<open>_process_tool_calls\<close> appends to
  the history only messages of role \<open>tool\<close>, one for each request it has dispatched, in
  the order of the requests and each with the id of its request; when no exception ends
  the loop, that is one message for every request.
\<close>

lemma dispatched_requests_are_answered:
  "let res = process_tool_calls A tcs ms w;
       new = drop (length ms) (fst (snd res))
   in fst (snd res) = ms @ new
    \<and> map m_role new = replicate (length new) (Some ''tool'')
    \<and> map m_tool_call_id new = map (\<lambda>tc. Some (tc_id tc)) (take (length new) tcs)
    \<and> (fst res = None \<longrightarrow>
         length new = length tcs \<and> map m_tool_call_id new = map (\<lambda>tc. Some (tc_id tc)) tcs)"
proof -
  obtain r ms' w' where p: "process_tool_calls A tcs ms w = (r, ms', w')"
    by (cases "process_tool_calls A tcs ms w")
  from process_tool_calls_appends[OF p] obtain new where
    n: "ms' = ms @ new"
       "map m_role new = replicate (length new) (Some ''tool'')"
       "map m_tool_call_id new = map (\<lambda>tc. Some (tc_id tc)) (take (length new) tcs)"
       "r = None \<longrightarrow> length new = length tcs" by blast
  have res: "fst (process_tool_calls A tcs ms w) = r"
    "fst (snd (process_tool_calls A tcs ms w)) = ms @ new"
    using p n(1) by simp_all
  have whole: "r = None \<longrightarrow> map m_tool_call_id new = map (\<lambda>tc. Some (tc_id tc)) tcs"
    using n(3) n(4) by simp
  show ?thesis
    unfolding Let_def res using n(2) n(3) n(4) whole by simp
qed

text \<open>
  C4. The claim is that every request of an assistant message gets exactly one tool
  message, also when the request fails in a way the agent recovers from. The code does
  not do that for the tool \<open>code_execution\<close> when the arguments parse to something that
  is not an object: for the payload \<open>3\<close>, the test \<open>"code" in args\<close> of
  \<open>_process_tool_calls\<close> raises a \<open>TypeError\<close>, which its handler for
  \<open>JSONDecodeError\<close> lets through. No tool message is appended for the request, the
  request after it is not dispatched, and the exception ends the query. The same
  payload for another tool is recovered: the \<open>TypeError\<close> of the call is caught and
  becomes the tool message.
\<close>

theorem non_object_arguments_end_dispatch:
  "process_tool_calls session_agent
     [\<lparr>tc_id = ''call_1'', tc_name = ''code_execution'', tc_arguments = ''3''\<rparr>,
      \<lparr>tc_id = ''call_2'', tc_name = ''code_execution'', tc_arguments = ''{\"code\": \"x = 2\"}''\<rparr>]
     ms w
     = (Some (TypeError (''argument of type '' @ quoted ''int'' @ '' is not iterable'')), ms, w)
   \<and> fst (query_loop
            (session_agent\<lparr>completion := (\<lambda>ms kw.
               (Inr \<lparr>rsp_content = None,
                     rsp_tool_calls = Some
                       [\<lparr>tc_id = ''call_1'', tc_name = ''code_execution'', tc_arguments = ''3''\<rparr>,
                        \<lparr>tc_id = ''call_2'', tc_name = ''code_execution'',
                         tc_arguments = ''{\"code\": \"x = 2\"}''\<rparr>]\<rparr>, kw))\<rparr>)
            (Suc n) ms w)
     = Aborted (TypeError (''argument of type '' @ quoted ''int'' @ '' is not iterable''))
   \<and> process_tool_calls session_agent
     [\<lparr>tc_id = ''call_1'', tc_name = ''code_search'', tc_arguments = ''3''\<rparr>] ms w
     = (None,
        ms @ [\<lparr>m_role = Some ''tool'',
                m_content = Some (''Error executing tool '' @ quoted ''code_search'' @ '': ''
                  @ ''codeact_retrieval.functions.search.code_search()''
                  @ '' argument after ** must be a mapping, not int''),
                m_tool_calls = None, m_tool_call_id = Some ''call_1'',
                m_name = Some ''code_search''\<rparr>],
        w)"
  by (simp add: session_defs agent_defs Let_def)

text \<open>
  C3, as the claim has it, fails for a history that holds a system message after its
  first position: \<open>_set_system_prompt\<close> looks at the first message only. The agent is
  given the history \<open>[user, system]\<close>; the query returns, and the history then holds
  two system messages.
\<close>

theorem system_message_counted_twice:
  "fst (query session_agent 3 ''find the parser''
          ([user_message ''hi'', system_message ''You are a pirate.''],
           (session_kernel, session_world)))
     = Final \<lparr>q_content = ''Done'', q_tool_calls = None\<rparr>
   \<and> map m_role (fst (queries session_agent 3 [''find the parser'']
          ([user_message ''hi'', system_message ''You are a pirate.''],
           (session_kernel, session_world))))
     = [Some ''system'', Some ''user'', Some ''system'', Some ''user'', Some ''assistant'',
        Some ''tool'', Some ''tool'', Some ''tool'', Some ''tool'', Some ''tool'',
        Some ''assistant'']
   \<and> count_system (fst (queries session_agent 3 [''find the parser'']
          ([user_message ''hi'', system_message ''You are a pirate.''],
           (session_kernel, session_world)))) = 2"
  by (simp add: session_defs agent_defs kernel_defs is_system_def numeral_3_eq_3)

text \<open>
  C3, amended. After one or more queries on a history, whatever each query's outcome
  and however long its loop ran, the first message has the role \<open>system\<close>, and the
  history holds one system message more than the initial history held after its first
  position. So there is exactly one when the initial history had no system message
  after its first position, and the number does not depend on how many queries were
  made: no query after the first adds one.
\<close>

theorem system_message_after_queries:
  assumes "prompts \<noteq> []"
  shows "starts_with_system (fst (queries A rounds prompts (ms, w)))
       \<and> count_system (fst (queries A rounds prompts (ms, w))) = Suc (count_system (tl ms))"
  using assms by (rule queries_history)

theorem system_message_after_queries_witness:
  "[''find the parser'', ''find the lexer''] \<noteq> []
   \<and> starts_with_system (fst (queries session_agent 3 [''find the parser'', ''find the lexer'']
        ([], (session_kernel, session_world))))
   \<and> count_system (fst (queries session_agent 3 [''find the parser'', ''find the lexer'']
        ([], (session_kernel, session_world)))) = 1"
  using system_message_after_queries
          [of "[''find the parser'', ''find the lexer'']" session_agent 3 "[]"
              "(session_kernel, session_world)"]
  by simp




text \<open>
  C6. A registered tool is called and raises. When the exception is an instance of
  \<open>TypeError\<close>, \<open>ValueError\<close>, \<open>AttributeError\<close> or \<open>RuntimeError\<close>, the
  request gets a tool message whose content is \<open>Error executing tool '<name>':\<close>, a
  space and the exception's text, and the loop goes on with the requests after it. When
  it is not, the exception leaves \<open>_execute_tool_call\<close>, \<open>_process_tool_calls\<close> and
  the loop of \<open>query\<close>; the history is then the one accumulated up to that call: the
  history the completion was asked with, the assistant message, and the tool messages
  of the requests before the failing one.
\<close>

theorem tool_fault_caught_or_propagated:
  assumes parsed: "parse_tool_args A tc = Inr args"
    and registered: "tool_functions A (tc_name tc) = Some t"
    and raised: "call_tool t args w = (Inl e, w')"
    and asked: "completion A ms0 w0 = (Inr r, w1)"
    and requests: "rsp_tool_calls r = Some (pre @ tc # post)"
    and before: "process_tool_calls A pre (ms0 @ [assistant_message r]) w1 = (None, ms, w)"
  shows "(caught e \<longrightarrow>
            execute_tool_call A tc w
              = (Inr \<lparr>tool_call_id = tc_id tc, tool_name = tc_name tc, tool_args = args,
                      tool_response = PStr (''Error executing tool '' @ quoted (tc_name tc)
                                            @ '': '' @ detail e)\<rparr>, w')
          \<and> process_tool_calls A (pre @ tc # post) (ms0 @ [assistant_message r]) w1
              = process_tool_calls A post
                  (ms @ [\<lparr>m_role = Some ''tool'',
                          m_content = Some (''Error executing tool '' @ quoted (tc_name tc)
                                            @ '': '' @ detail e),
                          m_tool_calls = None, m_tool_call_id = Some (tc_id tc),
                          m_name = Some (tc_name tc)\<rparr>]) w')
       \<and> (\<not> caught e \<longrightarrow>
            execute_tool_call A tc w = (Inl e, w')
          \<and> process_tool_calls A (pre @ tc # post) (ms0 @ [assistant_message r]) w1
              = (Some e, ms, w')
          \<and> query_loop A (Suc n) ms0 w0 = (Aborted e, ms, w')
          \<and> prefix (ms0 @ [assistant_message r]) ms)"
proof (intro conjI impI)
  have shown: "show_arguments A tc = None"
    using parsed by (rule show_arguments_parsed)
  have split: "process_tool_calls A (pre @ tc # post) (ms0 @ [assistant_message r]) w1
                 = process_tool_calls A (tc # post) ms w"
    using before by (rule process_tool_calls_append)
  {
    assume c: "caught e"
    show answer: "execute_tool_call A tc w
              = (Inr \<lparr>tool_call_id = tc_id tc, tool_name = tc_name tc, tool_args = args,
                      tool_response = PStr (''Error executing tool '' @ quoted (tc_name tc)
                                            @ '': '' @ detail e)\<rparr>, w')"
      using parsed registered raised c by (simp add: execute_tool_call_def)
    show "process_tool_calls A (pre @ tc # post) (ms0 @ [assistant_message r]) w1
              = process_tool_calls A post
                  (ms @ [\<lparr>m_role = Some ''tool'',
                          m_content = Some (''Error executing tool '' @ quoted (tc_name tc)
                                            @ '': '' @ detail e),
                          m_tool_calls = None, m_tool_call_id = Some (tc_id tc),
                          m_name = Some (tc_name tc)\<rparr>]) w'"
      unfolding split using shown answer by (simp add: tool_message_def py_str_def)
  }
  {
    assume c: "\<not> caught e"
    show leaves: "execute_tool_call A tc w = (Inl e, w')"
      using parsed registered raised c by (simp add: execute_tool_call_def)
    show ends: "process_tool_calls A (pre @ tc # post) (ms0 @ [assistant_message r]) w1
              = (Some e, ms, w')"
      unfolding split using shown leaves by simp
    obtain first rest where nonempty: "pre @ tc # post = first # rest"
      by (cases pre) simp_all
    show "query_loop A (Suc n) ms0 w0 = (Aborted e, ms, w')"
      using asked requests ends nonempty by (simp add: Let_def)
    from process_tool_calls_appends[OF before] obtain new where
      "ms = (ms0 @ [assistant_message r]) @ new" by blast
    then show "prefix (ms0 @ [assistant_message r]) ms"
      by simp
  }
qed

theorem tool_fault_caught_or_propagated_witness:
  "\<not> caught (KeyError (quoted ''HOME''))
   \<and> fst (query failing_agent 3 ''find the parser'' ([], (session_kernel, session_world)))
       = Aborted (KeyError (quoted ''HOME''))
   \<and> map m_role (fst (snd (query failing_agent 3 ''find the parser''
                              ([], (session_kernel, session_world)))))
       = [Some ''system'', Some ''user'', Some ''assistant'', Some ''tool'']
   \<and> map m_tool_call_id (fst (snd (query failing_agent 3 ''find the parser''
                                      ([], (session_kernel, session_world)))))
       = [None, None, None, Some ''call_1'']
   \<and> caught (RuntimeError ''Repository not initialized. Call initialize() first.'')
   \<and> execute_tool_call session_agent
         \<lparr>tc_id = ''call_4'', tc_name = ''code_search'',
          tc_arguments = ''{\"query\": \"parser\"}''\<rparr>
         (session_kernel, session_world)
       = (Inr \<lparr>tool_call_id = ''call_4'', tool_name = ''code_search'',
               tool_args = PDict [(''query'', PStr ''parser'')],
               tool_response = PStr (''Error executing tool '' @ quoted ''code_search''
                 @ '': Repository not initialized. Call initialize() first.'')\<rparr>,
          (session_kernel, session_world))"
proof -
  let ?ms0 = "[system_message ''You are a code retrieval agent.'', user_message ''find the parser'']"
  let ?w0 = "(session_kernel, session_world)"
  let ?r = "\<lparr>rsp_content = None, rsp_tool_calls = Some failing_requests\<rparr>"
  let ?first = "\<lparr>tc_id = ''call_1'', tc_name = ''code_execution'',
                  tc_arguments = ''{\"code\": \"x = 2\"}''\<rparr>"
  let ?tc = "\<lparr>tc_id = ''call_2'', tc_name = ''read_env'', tc_arguments = ''{}''\<rparr>"
  let ?last = "\<lparr>tc_id = ''call_3'', tc_name = ''code_execution'',
                 tc_arguments = ''{\"code\": \"print(x)\"}''\<rparr>"
  let ?e = "KeyError (quoted ''HOME'')"
  have uncaught: "\<not> caught ?e"
    by (simp add: caught_def isinstance_def KeyError_def)
  have parsed: "parse_tool_args failing_agent ?tc = Inr (PDict [])"
    by (simp add: parse_tool_args_def failing_agent_def session_agent_def session_json_def)
  have registered: "tool_functions failing_agent (tc_name ?tc) = Some read_env_tool"
    by (simp add: session_defs tool_functions_def register_def)
  have raised: "call_tool read_env_tool (PDict []) w = (Inl ?e, w)" for w
    by (simp add: call_tool_def read_env_tool_def)
  have asked: "completion failing_agent ?ms0 ?w0 = (Inr ?r, ?w0)"
    by (simp add: failing_agent_def)
  have requests: "rsp_tool_calls ?r = Some ([?first] @ ?tc # [?last])"
    by (simp add: failing_requests_def)
  have ok: "fst (process_tool_calls failing_agent [?first] (?ms0 @ [assistant_message ?r]) ?w0) = None"
    by (simp add: session_defs agent_defs kernel_defs)
  have roles: "map m_role (fst (snd (process_tool_calls failing_agent [?first]
                  (?ms0 @ [assistant_message ?r]) ?w0)))
                 = [Some ''system'', Some ''user'', Some ''assistant'', Some ''tool'']"
    by (simp add: session_defs agent_defs kernel_defs)
  have ids: "map m_tool_call_id (fst (snd (process_tool_calls failing_agent [?first]
                  (?ms0 @ [assistant_message ?r]) ?w0)))
                 = [None, None, None, Some ''call_1'']"
    by (simp add: session_defs agent_defs kernel_defs)
  obtain ms w where before:
    "process_tool_calls failing_agent [?first] (?ms0 @ [assistant_message ?r]) ?w0 = (None, ms, w)"
    using ok
    by (cases "process_tool_calls failing_agent [?first] (?ms0 @ [assistant_message ?r]) ?w0")
      simp
  have "query_loop failing_agent (Suc 2) ?ms0 ?w0 = (Aborted ?e, ms, w)"
    using tool_fault_caught_or_propagated
            [OF parsed registered raised asked requests before, of 2] uncaught
    by blast
  moreover have "query failing_agent 3 ''find the parser'' ([], ?w0)
                   = query_loop failing_agent (Suc 2) ?ms0 ?w0"
    by (simp add: query_def set_system_prompt_def failing_agent_def session_agent_def
        numeral_3_eq_3)
  ultimately have aborted:
    "query failing_agent 3 ''find the parser'' ([], ?w0) = (Aborted ?e, ms, w)"
    by simp
  let ?search = "\<lparr>tc_id = ''call_4'', tc_name = ''code_search'',
                   tc_arguments = ''{\"query\": \"parser\"}''\<rparr>"
  let ?args = "PDict [(''query'', PStr ''parser'')]"
  let ?f = "RuntimeError ''Repository not initialized. Call initialize() first.''"
  let ?r2 = "\<lparr>rsp_content = None, rsp_tool_calls = Some [?search]\<rparr>"
  have is_caught: "caught ?f"
    by (simp add: caught_def isinstance_def RuntimeError_def)
  have parsed2: "parse_tool_args session_agent ?search = Inr ?args"
    by (simp add: parse_tool_args_def session_agent_def session_json_def)
  have registered2: "tool_functions session_agent (tc_name ?search) = Some code_search_tool"
    by (simp add: session_defs tool_functions_def register_def)
  have raised2: "call_tool code_search_tool ?args ?w0 = (Inl ?f, ?w0)"
    by (simp add: call_tool_def code_search_tool_def code_search_def)
  have asked2: "completion (session_agent\<lparr>completion := (\<lambda>ms kw. (Inr ?r2, kw))\<rparr>) ?ms0 ?w0
                  = (Inr ?r2, ?w0)"
    by simp
  have requests2: "rsp_tool_calls ?r2 = Some ([] @ ?search # [])"
    by simp
  have before2: "process_tool_calls (session_agent\<lparr>completion := (\<lambda>ms kw. (Inr ?r2, kw))\<rparr>) []
                   (?ms0 @ [assistant_message ?r2]) ?w0
                 = (None, ?ms0 @ [assistant_message ?r2], ?w0)"
    by simp
  have same: "parse_tool_args (session_agent\<lparr>completion := c\<rparr>) tc = parse_tool_args session_agent tc"
       "tool_functions (session_agent\<lparr>completion := c\<rparr>) = tool_functions session_agent"
       "execute_tool_call (session_agent\<lparr>completion := c\<rparr>) tc w = execute_tool_call session_agent tc w"
    for c tc w
    by (simp_all add: parse_tool_args_def tool_functions_def execute_tool_call_def
        cong: sum.case_cong if_cong)
  have answered: "execute_tool_call session_agent ?search ?w0
       = (Inr \<lparr>tool_call_id = ''call_4'', tool_name = ''code_search'', tool_args = ?args,
               tool_response = PStr (''Error executing tool '' @ quoted ''code_search''
                 @ '': Repository not initialized. Call initialize() first.'')\<rparr>, ?w0)"
    using tool_fault_caught_or_propagated
            [of "session_agent\<lparr>completion := (\<lambda>ms kw. (Inr ?r2, kw))\<rparr>" ?search ?args
                code_search_tool ?w0 ?f ?w0 ?ms0 ?w0 ?r2 ?w0 "[]" "[]"
                "?ms0 @ [assistant_message ?r2]" 0]
          parsed2 registered2 raised2 asked2 requests2 before2 is_caught
    by (simp add: same RuntimeError_def)
  show ?thesis
    using uncaught roles ids before aborted is_caught answered by simp
qed

end
